theory Spec2Isabelle
  imports Complex_Main "HOL-Library.Word"
begin

section \<open>The whiteboard screen of the native SDK\<close>

text \<open>
  This theory embeds \<^verbatim>\<open>react/features/whiteboard/components/native/Whiteboard.tsx\<close>:
  the computation of the URI given to the web view (\<^verbatim>\<open>render\<close>), the navigation guard
  (\<^verbatim>\<open>_onNavigate\<close>), the message bridge (\<^verbatim>\<open>_onMessage\<close>), the load-error handler
  (\<^verbatim>\<open>_onError\<close>) and \<^verbatim>\<open>mapStateToProps\<close>.  Identifiers of the source that start
  with an underscore lose it, since an Isabelle name starts with a letter.
\<close>

subsection \<open>JavaScript strings and the values of \<^verbatim>\<open>JSON.parse\<close>\<close>

text \<open>
  A JavaScript string is a sequence of 16-bit code units.  \<open>units\<close> writes a string
  whose code units are all below 256 from an Isabelle literal.
\<close>

type_synonym js_string = "16 word list"

definition units :: "string \<Rightarrow> js_string" where
  "units = map of_char"

text \<open>
  The values \<^verbatim>\<open>JSON.parse\<close> returns.  A number carries the exact decimal value of its
  literal; the runtime keeps the nearest double, which is zero exactly when the decimal
  value is at most \<open>2\<^sup>-\<^sup>1\<^sup>0\<^sup>7\<^sup>5\<close> in magnitude (half of the least positive double, the tie
  going to the even neighbour zero).  An object is the list of its own properties, each
  name once.  The order in which an engine enumerates integer-like names is not modelled.
\<close>

datatype json =
    JNull
  | JBool bool
  | JNumber rat
  | JString js_string
  | JArray "json list"
  | JObject "(js_string \<times> json) list"

definition rounds_to_zero :: "rat \<Rightarrow> bool" where
  "rounds_to_zero v = (\<bar>v\<bar> \<le> 1 / 2 ^ 1075)"

text \<open>
  Truthiness (\<^verbatim>\<open>ToBoolean\<close>) of a value that is either \<^verbatim>\<open>undefined\<close> (\<open>None\<close>) or a
  parsed value: \<^verbatim>\<open>undefined\<close>, \<^verbatim>\<open>null\<close>, \<^verbatim>\<open>false\<close>, zero and the empty string are
  falsy, everything else (every array and object included) is truthy.
\<close>

fun truthy :: "json option \<Rightarrow> bool" where
  "truthy None = False"
| "truthy (Some JNull) = False"
| "truthy (Some (JBool b)) = b"
| "truthy (Some (JNumber v)) = (\<not> rounds_to_zero v)"
| "truthy (Some (JString s)) = (s \<noteq> [])"
| "truthy (Some (JArray vs)) = True"
| "truthy (Some (JObject es)) = True"

text \<open>
  \<^verbatim>\<open>v?.name\<close> for a parsed value \<open>v\<close> and a property name that no prototype and no
  array or string defines (\<^verbatim>\<open>roomId\<close> and \<^verbatim>\<open>roomKey\<close> are such names): an object
  yields its own property, \<^verbatim>\<open>null\<close> short-circuits to \<^verbatim>\<open>undefined\<close>, and every other
  value has no such property.
\<close>

fun optional_member :: "json \<Rightarrow> js_string \<Rightarrow> json option" where
  "optional_member (JObject es) name = map_of es name"
| "optional_member _ name = None"

subsection \<open>\<^verbatim>\<open>JSON.parse\<close>\<close>

text \<open>
  The built-in parser, following the JSON grammar of ECMA-404: a lexer producing tokens
  and a pushdown recogniser over the tokens.  \<open>None\<close> stands for the \<^verbatim>\<open>SyntaxError\<close>
  the built-in throws.
\<close>

datatype token =
    LBrace | RBrace | LBracket | RBracket | Colon | Comma
  | TString js_string | TNumber rat | TTrue | TFalse | TNull

definition is_ws :: "16 word \<Rightarrow> bool" where
  "is_ws c = (c = 0x20 \<or> c = 0x09 \<or> c = 0x0A \<or> c = 0x0D)"

definition is_digit :: "16 word \<Rightarrow> bool" where
  "is_digit c = (0x30 \<le> c \<and> c \<le> 0x39)"

definition hex_digit :: "16 word \<Rightarrow> 16 word option" where
  "hex_digit c =
     (if 0x30 \<le> c \<and> c \<le> 0x39 then Some (c - 0x30)
      else if 0x41 \<le> c \<and> c \<le> 0x46 then Some (c - 0x37)
      else if 0x61 \<le> c \<and> c \<le> 0x66 then Some (c - 0x57)
      else None)"

definition hex4 :: "16 word \<Rightarrow> 16 word \<Rightarrow> 16 word \<Rightarrow> 16 word \<Rightarrow> 16 word option" where
  "hex4 a b c d =
     (case (hex_digit a, hex_digit b, hex_digit c, hex_digit d) of
        (Some w, Some x, Some y, Some z) \<Rightarrow> Some (4096 * w + 256 * x + 16 * y + z)
      | _ \<Rightarrow> None)"

text \<open>The single-character escapes: \<^verbatim>\<open>\" \\ \/ \b \f \n \r \t\<close>.\<close>

definition escape_char :: "16 word \<Rightarrow> 16 word option" where
  "escape_char e =
     (if e = 0x22 then Some 0x22
      else if e = 0x5C then Some 0x5C
      else if e = 0x2F then Some 0x2F
      else if e = 0x62 then Some 0x08
      else if e = 0x66 then Some 0x0C
      else if e = 0x6E then Some 0x0A
      else if e = 0x72 then Some 0x0D
      else if e = 0x74 then Some 0x09
      else None)"

text \<open>
  The body of a string literal, after the opening quote: the decoded string and the input
  left after the closing quote.  A control character (below \<open>0x20\<close>), an unknown escape
  and the end of the input before the closing quote are errors.
\<close>

fun lex_string :: "js_string \<Rightarrow> (js_string \<times> js_string) option" where
  "lex_string [] = None"
| "lex_string (c # cs) =
     (if c = 0x22 then Some ([], cs)
      else if c < 0x20 then None
      else if c = 0x5C then
        (case cs of
           [] \<Rightarrow> None
         | e # r \<Rightarrow>
             (if e = 0x75 then
                (case r of
                   h1 # h2 # h3 # h4 # r' \<Rightarrow>
                     (case hex4 h1 h2 h3 h4 of
                        None \<Rightarrow> None
                      | Some u \<Rightarrow> map_option (\<lambda>(s, rest). (u # s, rest)) (lex_string r'))
                 | _ \<Rightarrow> None)
              else
                (case escape_char e of
                   None \<Rightarrow> None
                 | Some u \<Rightarrow> map_option (\<lambda>(s, rest). (u # s, rest)) (lex_string r))))
      else map_option (\<lambda>(s, rest). (c # s, rest)) (lex_string cs))"

text \<open>The value of a run of decimal digits.\<close>

definition digits_value :: "js_string \<Rightarrow> nat" where
  "digits_value ds = foldl (\<lambda>a c. 10 * a + unat (c - 0x30)) 0 ds"

text \<open>
  The optional exponent part of a number: the factor it contributes and the input left.
  An \<^verbatim>\<open>e\<close> or \<^verbatim>\<open>E\<close> with no digit after its optional sign is an error (neither letter can
  start another token).
\<close>

definition lex_exponent :: "js_string \<Rightarrow> (rat \<times> js_string) option" where
  "lex_exponent cs =
     (case cs of
        [] \<Rightarrow> Some (1, cs)
      | c # r \<Rightarrow>
          if c = 0x65 \<or> c = 0x45 then
            (let (neg, r1) =
                   (case r of
                      [] \<Rightarrow> (False, r)
                    | s # r' \<Rightarrow>
                        if s = 0x2D then (True, r')
                        else if s = 0x2B then (False, r')
                        else (False, r));
                 ds = takeWhile is_digit r1
             in if ds = [] then None
                else Some (if neg then 1 / 10 ^ digits_value ds else 10 ^ digits_value ds,
                           dropWhile is_digit r1))
          else Some (1, cs))"

text \<open>
  The optional fraction part: its value and the input left.  A point with no digit after
  it is an error.
\<close>

definition lex_fraction :: "js_string \<Rightarrow> (rat \<times> js_string) option" where
  "lex_fraction cs =
     (case cs of
        [] \<Rightarrow> Some (0, cs)
      | c # r \<Rightarrow>
          if c = 0x2E then
            (let ds = takeWhile is_digit r
             in if ds = [] then None
                else Some (of_nat (digits_value ds) / 10 ^ length ds, dropWhile is_digit r))
          else Some (0, cs))"

text \<open>
  A number: an optional minus, an integer part with no superfluous leading zero, an
  optional fraction and an optional exponent.  A digit after a leading zero is an error
  (the grammar ends the number at the zero, and no value can follow a value directly).
\<close>

definition lex_number :: "js_string \<Rightarrow> (rat \<times> js_string) option" where
  "lex_number cs =
     (let (neg, cs1) =
            (case cs of
               [] \<Rightarrow> (False, cs)
             | c # r \<Rightarrow> if c = 0x2D then (True, r) else (False, cs));
          ds = takeWhile is_digit cs1
      in if ds = [] \<or> (1 < length ds \<and> hd ds = 0x30) then None
         else
           (case lex_fraction (dropWhile is_digit cs1) of
              None \<Rightarrow> None
            | Some (f, cs2) \<Rightarrow>
                (case lex_exponent cs2 of
                   None \<Rightarrow> None
                 | Some (e, cs3) \<Rightarrow>
                     Some ((if neg then - 1 else 1) * (of_nat (digits_value ds) + f) * e,
                           cs3))))"

lemma lex_string_shorter: "lex_string cs = Some (s, r) \<Longrightarrow> length r < length cs"
proof (induction cs arbitrary: s r rule: lex_string.induct)
  case 1
  then show ?case by simp
next
  case (2 c cs)
  show ?case
  proof (cases "c = 0x22 \<or> c < 0x20")
    case True
    with "2.prems" show ?thesis by (auto split: if_splits)
  next
    case plain: False
    show ?thesis
    proof (cases "c = 0x5C")
      case False
      with plain "2.prems" obtain s' where "lex_string cs = Some (s', r)"
        by (auto split: if_splits)
      with plain False have "length r < length cs" by (intro "2.IH"(3)) auto
      then show ?thesis by simp
    next
      case esc: True
      with plain "2.prems" obtain e t where cs: "cs = e # t"
        by (cases cs) (auto split: if_splits)
      show ?thesis
      proof (cases "e = 0x75")
        case False
        with plain esc cs "2.prems" obtain u s' where
          "escape_char e = Some u" "lex_string t = Some (s', r)"
          by (auto split: if_splits option.splits)
        with plain esc cs False have "length r < length t" by (intro "2.IH"(2)) auto
        with cs show ?thesis by simp
      next
        case True
        with plain esc cs "2.prems" obtain h1 h2 h3 h4 t' u s' where
          t: "t = h1 # h2 # h3 # h4 # t'" and
          "hex4 h1 h2 h3 h4 = Some u" "lex_string t' = Some (s', r)"
          by (auto split: if_splits option.splits list.splits)
        with plain esc cs True have "length r < length t'" by (intro "2.IH"(1)) auto
        with cs t show ?thesis by simp
      qed
    qed
  qed
qed

lemma lex_exponent_shorter: "lex_exponent cs = Some (e, r) \<Longrightarrow> length r \<le> length cs"
proof -
  have d: "length (dropWhile is_digit xs) \<le> length xs" for xs :: js_string
    by (rule length_dropWhile_le)
  assume "lex_exponent cs = Some (e, r)"
  then show ?thesis
    using d [of "tl cs"] d [of "tl (tl cs)"]
    by (auto simp: lex_exponent_def Let_def split: list.splits if_splits)
qed

lemma lex_fraction_shorter: "lex_fraction cs = Some (f, r) \<Longrightarrow> length r \<le> length cs"
proof -
  assume "lex_fraction cs = Some (f, r)"
  then show ?thesis
    using length_dropWhile_le [of is_digit "tl cs"]
    by (auto simp: lex_fraction_def Let_def split: list.splits if_splits)
qed

lemma dropWhile_shorter: "takeWhile P xs \<noteq> [] \<Longrightarrow> length (dropWhile P xs) < length xs"
  by (cases xs) (auto simp: less_Suc_eq_le length_dropWhile_le split: if_splits)

lemma lex_number_shorter: "lex_number cs = Some (v, r) \<Longrightarrow> length r < length cs"
proof -
  assume a: "lex_number cs = Some (v, r)"
  define cs1 where "cs1 = (case cs of [] \<Rightarrow> cs | c # t \<Rightarrow> if c = 0x2D then t else cs)"
  define neg where "neg = (case cs of [] \<Rightarrow> False | c # t \<Rightarrow> c = 0x2D)"
  have c1: "length cs1 \<le> length cs"
    by (auto simp: cs1_def split: list.splits)
  have split: "(case cs of [] \<Rightarrow> (False, cs) | c # t \<Rightarrow> if c = 0x2D then (True, t) else (False, cs))
      = (neg, cs1)"
    by (auto simp: cs1_def neg_def split: list.splits)
  from a have nz: "takeWhile is_digit cs1 \<noteq> []"
    unfolding lex_number_def split by (auto simp: Let_def split: if_splits)
  from a obtain f cs2 where fr: "lex_fraction (dropWhile is_digit cs1) = Some (f, cs2)"
    unfolding lex_number_def split by (auto simp: Let_def split: if_splits option.splits)
  from a fr obtain e where ex: "lex_exponent cs2 = Some (e, r)"
    unfolding lex_number_def split by (auto simp: Let_def split: if_splits option.splits)
  from ex have "length r \<le> length cs2" by (rule lex_exponent_shorter)
  also from fr have "\<dots> \<le> length (dropWhile is_digit cs1)" by (rule lex_fraction_shorter)
  also from nz have "\<dots> < length cs1" by (rule dropWhile_shorter)
  finally show ?thesis using c1 by simp
qed

text \<open>
  The lexer.  White space is space, tab, line feed and carriage return; the literal names
  are \<^verbatim>\<open>true\<close>, \<^verbatim>\<open>false\<close> and \<^verbatim>\<open>null\<close> in lower case; any other
  character outside a string is an error.
\<close>

function tokenize :: "js_string \<Rightarrow> token list option" where
  "tokenize [] = Some []"
| "tokenize (c # cs) =
     (if is_ws c then tokenize cs
      else if c = 0x7B then map_option ((#) LBrace) (tokenize cs)
      else if c = 0x7D then map_option ((#) RBrace) (tokenize cs)
      else if c = 0x5B then map_option ((#) LBracket) (tokenize cs)
      else if c = 0x5D then map_option ((#) RBracket) (tokenize cs)
      else if c = 0x3A then map_option ((#) Colon) (tokenize cs)
      else if c = 0x2C then map_option ((#) Comma) (tokenize cs)
      else if c = 0x22 then
        (case lex_string cs of
           None \<Rightarrow> None
         | Some (s, r) \<Rightarrow> map_option ((#) (TString s)) (tokenize r))
      else if c = 0x2D \<or> is_digit c then
        (case lex_number (c # cs) of
           None \<Rightarrow> None
         | Some (v, r) \<Rightarrow> map_option ((#) (TNumber v)) (tokenize r))
      else if take 4 (c # cs) = [0x74, 0x72, 0x75, 0x65] then
        map_option ((#) TTrue) (tokenize (drop 3 cs))
      else if take 5 (c # cs) = [0x66, 0x61, 0x6C, 0x73, 0x65] then
        map_option ((#) TFalse) (tokenize (drop 4 cs))
      else if take 4 (c # cs) = [0x6E, 0x75, 0x6C, 0x6C] then
        map_option ((#) TNull) (tokenize (drop 3 cs))
      else None)"
  by pat_completeness auto
termination
  by (relation "measure length")
     (auto dest!: lex_string_shorter lex_number_shorter simp: less_Suc_eq)

text \<open>
  The recogniser keeps a stack of the containers that are open.  \<open>AtKey k\<close> lies on top of
  the frame of its object while the value of the property \<open>k\<close> is read.
\<close>

datatype frame =
    InArray "json list"
  | InObject "(js_string \<times> json) list"
  | AtKey js_string

datatype expect =
    AValue
  | AValueOrClose
  | AKeyOrClose
  | AKey
  | AColon
  | ACommaOrClose
  | TheEnd json

text \<open>A property defined twice keeps its place and takes the later value.\<close>

fun define_property :: "js_string \<Rightarrow> json \<Rightarrow> (js_string \<times> json) list \<Rightarrow> (js_string \<times> json) list" where
  "define_property k v [] = [(k, v)]"
| "define_property k v ((k', v') # es) =
     (if k = k' then (k, v) # es else (k', v') # define_property k v es)"

text \<open>A value is complete: it ends the text, or goes into the container on top.\<close>

fun close_value :: "json \<Rightarrow> frame list \<Rightarrow> (frame list \<times> expect) option" where
  "close_value v [] = Some ([], TheEnd v)"
| "close_value v (InArray vs # st) = Some (InArray (vs @ [v]) # st, ACommaOrClose)"
| "close_value v (AtKey k # InObject es # st) =
     Some (InObject (define_property k v es) # st, ACommaOrClose)"
| "close_value v st = None"

fun open_value :: "token \<Rightarrow> frame list \<Rightarrow> (frame list \<times> expect) option" where
  "open_value (TString s) st = close_value (JString s) st"
| "open_value (TNumber n) st = close_value (JNumber n) st"
| "open_value TTrue st = close_value (JBool True) st"
| "open_value TFalse st = close_value (JBool False) st"
| "open_value TNull st = close_value JNull st"
| "open_value LBracket st = Some (InArray [] # st, AValueOrClose)"
| "open_value LBrace st = Some (InObject [] # st, AKeyOrClose)"
| "open_value t st = None"

fun close_array :: "frame list \<Rightarrow> (frame list \<times> expect) option" where
  "close_array (InArray vs # st) = close_value (JArray vs) st"
| "close_array st = None"

fun close_object :: "frame list \<Rightarrow> (frame list \<times> expect) option" where
  "close_object (InObject es # st) = close_value (JObject es) st"
| "close_object st = None"

fun after_comma :: "frame list \<Rightarrow> (frame list \<times> expect) option" where
  "after_comma (InArray vs # st) = Some (InArray vs # st, AValue)"
| "after_comma (InObject es # st) = Some (InObject es # st, AKey)"
| "after_comma st = None"

fun shift :: "token \<Rightarrow> frame list \<times> expect \<Rightarrow> (frame list \<times> expect) option" where
  "shift t (st, AValue) = open_value t st"
| "shift t (st, AValueOrClose) = (if t = RBracket then close_array st else open_value t st)"
| "shift t (st, AKeyOrClose) =
     (case t of TString k \<Rightarrow> Some (AtKey k # st, AColon) | RBrace \<Rightarrow> close_object st | _ \<Rightarrow> None)"
| "shift t (st, AKey) = (case t of TString k \<Rightarrow> Some (AtKey k # st, AColon) | _ \<Rightarrow> None)"
| "shift t (st, AColon) = (if t = Colon then Some (st, AValue) else None)"
| "shift t (st, ACommaOrClose) =
     (case t of
        Comma \<Rightarrow> after_comma st
      | RBracket \<Rightarrow> close_array st
      | RBrace \<Rightarrow> close_object st
      | _ \<Rightarrow> None)"
| "shift t (st, TheEnd v) = None"

fun parse_tokens :: "token list \<Rightarrow> frame list \<times> expect \<Rightarrow> json option" where
  "parse_tokens [] (st, TheEnd v) = (if st = [] then Some v else None)"
| "parse_tokens [] (st, e) = None"
| "parse_tokens (t # ts) s = (case shift t s of None \<Rightarrow> None | Some s' \<Rightarrow> parse_tokens ts s')"

definition JSON_parse :: "js_string \<Rightarrow> json option" where
  "JSON_parse text =
     (case tokenize text of None \<Rightarrow> None | Some ts \<Rightarrow> parse_tokens ts ([], AValue))"


subsection \<open>Props, route parameters and the imported functions\<close>

text \<open>
  Fields of optional type (\<^verbatim>\<open>collabServerUrl?: string\<close>) and values the code guards with
  \<^verbatim>\<open>?.\<close> are options, \<open>None\<close> standing for \<^verbatim>\<open>undefined\<close>.  A local constant of
  the source that has the name of a field is written with a prime.
\<close>

record CollabDetails =
  roomId :: js_string
  roomKey :: js_string

record RouteParams =
  collabDetails :: "CollabDetails option"
  collabServerUrl :: "js_string option"
  localParticipantName :: "js_string option"

record Route =
  params :: "RouteParams option"

text \<open>
  The props \<^verbatim>\<open>mapStateToProps\<close> supplies, and the props of the component: those and the
  route.  \<^verbatim>\<open>dispatch\<close> is the effect \<open>dispatch\<close> below; \<^verbatim>\<open>navigation\<close> and the
  translation function are used by \<^verbatim>\<open>componentDidMount\<close> only.
\<close>

record 'conf StateProps =
  conference :: "'conf option"
  collabServerUrl :: "js_string option"
  locationHref :: js_string

record 'conf IProps = "'conf StateProps" +
  route :: Route

record URL =
  href :: js_string

text \<open>
  The redux state: \<open>locationURL\<close> is \<^verbatim>\<open>state['features/base/connection'].locationURL\<close>,
  \<open>features\<close> is everything else.
\<close>

record 'more IReduxState =
  locationURL :: "URL option"
  features :: 'more

text \<open>
  What the module imports from files that are not part of this development enters as a
  parameter: \<^verbatim>\<open>safeDecodeURIComponent\<close> (base/util/uri),
  \<^verbatim>\<open>getWhiteboardInfoForURIString\<close> and \<^verbatim>\<open>getCollabServerUrl\<close> (whiteboard/functions),
  \<^verbatim>\<open>WHITEBOARD_ID\<close> (whiteboard/constants) and \<^verbatim>\<open>getCurrentConference\<close>
  (base/conference/functions).  Each function is taken to return a value; the resolver
  returns a string or \<^verbatim>\<open>undefined\<close>.
\<close>

record ('more, 'conf) imported =
  safeDecodeURIComponent :: "js_string option \<Rightarrow> js_string option"
  getWhiteboardInfoForURIString ::
    "js_string \<Rightarrow> js_string option \<Rightarrow> CollabDetails option \<Rightarrow> js_string option \<Rightarrow> js_string option"
  getCollabServerUrl :: "'more IReduxState \<Rightarrow> js_string option"
  getCurrentConference :: "'more IReduxState \<Rightarrow> 'conf option"
  WHITEBOARD_ID :: js_string

subsection \<open>Effects\<close>

text \<open>
  The calls the component makes on its collaborators, in the order it makes them:
  \<^verbatim>\<open>this.props.dispatch(action)\<close> and
  \<^verbatim>\<open>conference.getMetadataHandler().setMetadata(key, value)\<close>.  The action creators
  \<^verbatim>\<open>setupWhiteboard({ collabDetails })\<close> and \<^verbatim>\<open>openDialog(component)\<close> are kept as
  constructors applied to their argument.
\<close>

datatype component = WhiteboardErrorDialog

datatype action =
    setupWhiteboard json
  | openDialog component

record Metadata =
  collabServerUrl :: "js_string option"
  collabDetails :: json

datatype 'conf effect =
    dispatch action
  | setMetadata 'conf js_string Metadata

text \<open>
  The exceptions: the \<^verbatim>\<open>SyntaxError\<close> of \<^verbatim>\<open>JSON.parse\<close> and the \<^verbatim>\<open>URIError\<close> of
  \<^verbatim>\<open>decodeURIComponent\<close>.
\<close>

datatype js_error = SyntaxError | URIError

subsection \<open>The component\<close>

text \<open>\<^verbatim>\<open>route.params?.field\<close>\<close>

definition route_param :: "(RouteParams \<Rightarrow> 'a option) \<Rightarrow> Route \<Rightarrow> 'a option" where
  "route_param field r = (case params r of None \<Rightarrow> None | Some p \<Rightarrow> field p)"

text \<open>\<^verbatim>\<open>a ?? b\<close>\<close>

definition nullish :: "'a option \<Rightarrow> 'a \<Rightarrow> 'a" where
  "nullish a b = (case a of None \<Rightarrow> b | Some v \<Rightarrow> v)"

text \<open>
  \<^verbatim>\<open>render\<close>: the constant \<^verbatim>\<open>uri\<close>, which the web view receives as
  \<^verbatim>\<open>source = {{ uri }}\<close>.
\<close>

definition render_uri :: "('more, 'conf) imported \<Rightarrow> 'conf IProps \<Rightarrow> js_string" where
  "render_uri imp props =
     (let collabServerUrl' =
            safeDecodeURIComponent imp (route_param RouteParams.collabServerUrl (route props));
          localParticipantName' =
            safeDecodeURIComponent imp (route_param RouteParams.localParticipantName (route props));
          collabDetails' = route_param RouteParams.collabDetails (route props)
      in nullish
           (getWhiteboardInfoForURIString imp (locationHref props)
              collabServerUrl' collabDetails' localParticipantName')
           [])"

text \<open>
  \<open>render_uri\<close> takes helpers that return.  To state that \<^verbatim>\<open>render\<close> itself returns,
  and returns a string, the same lines are embedded once more with helpers that may
  throw and with values that may be \<^verbatim>\<open>undefined\<close> or \<^verbatim>\<open>null\<close>: a call yields the
  exception thrown (\<open>Inl\<close>) or the value returned (\<open>Inr\<close>), and an exception of a helper
  leaves \<^verbatim>\<open>render\<close>, which has no handler.  The result is the constant \<^verbatim>\<open>uri\<close>.
\<close>

datatype js_value = JSUndefined | JSNull | JSString js_string

definition to_value :: "js_string option \<Rightarrow> js_value" where
  "to_value t = (case t of None \<Rightarrow> JSUndefined | Some s \<Rightarrow> JSString s)"

definition to_option :: "js_value \<Rightarrow> js_string option" where
  "to_option v = (case v of JSString s \<Rightarrow> Some s | _ \<Rightarrow> None)"

text \<open>\<^verbatim>\<open>a ?? b\<close> on such values: \<open>b\<close> when \<open>a\<close> is \<^verbatim>\<open>undefined\<close> or \<^verbatim>\<open>null\<close>.\<close>

definition nullish_value :: "js_value \<Rightarrow> js_value \<Rightarrow> js_value" where
  "nullish_value a b = (if a = JSUndefined \<or> a = JSNull then b else a)"

record helper_calls =
  call_safeDecodeURIComponent :: "js_value \<Rightarrow> js_error + js_value"
  call_getWhiteboardInfoForURIString ::
    "js_string \<Rightarrow> js_value \<Rightarrow> CollabDetails option \<Rightarrow> js_value \<Rightarrow> js_error + js_value"

definition render :: "helper_calls \<Rightarrow> 'conf IProps \<Rightarrow> js_error + js_value" where
  "render calls props =
     (case call_safeDecodeURIComponent calls
             (to_value (route_param RouteParams.collabServerUrl (route props))) of
        Inl e \<Rightarrow> Inl e
      | Inr collabServerUrl' \<Rightarrow>
          (case call_safeDecodeURIComponent calls
                  (to_value (route_param RouteParams.localParticipantName (route props))) of
             Inl e \<Rightarrow> Inl e
           | Inr localParticipantName' \<Rightarrow>
               (let collabDetails' = route_param RouteParams.collabDetails (route props)
                in case call_getWhiteboardInfoForURIString calls (locationHref props)
                          collabServerUrl' collabDetails' localParticipantName' of
                     Inl e \<Rightarrow> Inl e
                   | Inr uri \<Rightarrow> Inr (nullish_value uri (JSString [])))))"

text \<open>The helpers of \<open>render_uri\<close> as helpers that return.\<close>

definition returning :: "('more, 'conf) imported \<Rightarrow> helper_calls" where
  "returning imp =
     \<lparr>call_safeDecodeURIComponent =
        (\<lambda>t. Inr (to_value (safeDecodeURIComponent imp (to_option t)))),
      call_getWhiteboardInfoForURIString =
        (\<lambda>locationHref' collabServerUrl' collabDetails' localParticipantName'.
           Inr (to_value (getWhiteboardInfoForURIString imp locationHref'
                  (to_option collabServerUrl') collabDetails' (to_option localParticipantName'))))\<rparr>"

text \<open>\<^verbatim>\<open>_onError\<close>, on the calls made so far.\<close>

definition onError :: "'conf IProps \<Rightarrow> 'conf effect list \<Rightarrow> 'conf effect list" where
  "onError props calls = calls @ [dispatch (openDialog WhiteboardErrorDialog)]"

text \<open>
  \<^verbatim>\<open>_onNavigate\<close>: \<^verbatim>\<open>url === getWhiteboardInfoForURIString(...)\<close>, a string compared
  with a string or \<^verbatim>\<open>undefined\<close>.
\<close>

record Request =
  url :: js_string

definition onNavigate :: "('more, 'conf) imported \<Rightarrow> 'conf IProps \<Rightarrow> Request \<Rightarrow> bool" where
  "onNavigate imp props request =
     (let collabServerUrl' = route_param RouteParams.collabServerUrl (route props);
          collabDetails' = route_param RouteParams.collabDetails (route props);
          localParticipantName' = route_param RouteParams.localParticipantName (route props)
      in Some (url request) =
           getWhiteboardInfoForURIString imp (locationHref props)
             collabServerUrl' collabDetails' localParticipantName')"

text \<open>
  \<^verbatim>\<open>_onMessage\<close>, on the calls made so far: the exception it ends with, if any, and the
  calls made when it ends.  \<open>data\<close> is \<^verbatim>\<open>event.nativeEvent.data\<close>.
\<close>

record MessageEvent =
  data :: js_string

definition onMessage ::
  "('more, 'conf) imported \<Rightarrow> 'conf IProps \<Rightarrow> MessageEvent \<Rightarrow> 'conf effect list
     \<Rightarrow> js_error option \<times> 'conf effect list" where
  "onMessage imp props event calls =
     (case JSON_parse (data event) of
        None \<Rightarrow> (Some SyntaxError, calls)
      | Some collabDetails' \<Rightarrow>
          if truthy (optional_member collabDetails' (units ''roomId''))
             \<and> truthy (optional_member collabDetails' (units ''roomKey''))
          then
            (let calls1 = calls @ [dispatch (setupWhiteboard collabDetails')]
             in case conference props of
                  None \<Rightarrow> (None, calls1)
                | Some conf \<Rightarrow>
                    (None,
                     calls1 @
                       [setMetadata conf (WHITEBOARD_ID imp)
                          \<lparr>Metadata.collabServerUrl = StateProps.collabServerUrl props,
                           Metadata.collabDetails = collabDetails'\<rparr>]))
          else (None, calls))"

text \<open>
  \<^verbatim>\<open>mapStateToProps\<close>, and the props \<^verbatim>\<open>connect(mapStateToProps)(Whiteboard)\<close> gives
  the component: the props of the state together with the route the navigator passes.
\<close>

definition mapStateToProps ::
  "('more, 'conf) imported \<Rightarrow> 'more IReduxState \<Rightarrow> 'conf StateProps" where
  "mapStateToProps imp state =
     (let href' = (case locationURL state of None \<Rightarrow> [] | Some u \<Rightarrow> href u)
      in \<lparr>conference = getCurrentConference imp state,
          StateProps.collabServerUrl = getCollabServerUrl imp state,
          locationHref = href'\<rparr>)"

definition connect ::
  "('more, 'conf) imported \<Rightarrow> 'more IReduxState \<Rightarrow> Route \<Rightarrow> 'conf IProps" where
  "connect imp state r = StateProps.extend (mapStateToProps imp state) (IProps.fields r)"


subsection \<open>Observations on the calls made\<close>

fun is_commit :: "'conf effect \<Rightarrow> bool" where
  "is_commit (dispatch (setupWhiteboard v)) = True"
| "is_commit e = False"

fun is_publish :: "'conf effect \<Rightarrow> bool" where
  "is_publish (setMetadata conf key m) = True"
| "is_publish e = False"

subsection \<open>An instance of the imported functions\<close>

text \<open>
  The general results below hold for every value of the imported functions.  Evaluating
  the component on a concrete input needs one value for each; these follow the
  specification of the component.
\<close>

text \<open>
  Modelled from the spec: \<^verbatim>\<open>safeDecodeURIComponent\<close> (base/util/uri) is not among the
  sources.  Section 4.1: the optional string inputs are percent-decoded, and a malformed
  percent-encoding does not throw but falls back to the raw value; an absent input stays
  absent.  \<open>percent_decode\<close> is the decoding, \<open>None\<close> when the encoding is malformed:
  every \<^verbatim>\<open>%XX\<close> becomes the code unit \<open>XX\<close>; sequences of several bytes are not
  combined.
\<close>

fun percent_decode :: "js_string \<Rightarrow> js_string option" where
  "percent_decode [] = Some []"
| "percent_decode (c # cs) =
     (if c = 0x25 then
        (case cs of
           h1 # h2 # r \<Rightarrow>
             (case (hex_digit h1, hex_digit h2) of
                (Some a, Some b) \<Rightarrow> map_option ((#) (16 * a + b)) (percent_decode r)
              | _ \<Rightarrow> None)
         | _ \<Rightarrow> None)
      else map_option ((#) c) (percent_decode cs))"

text \<open>
  Modelled from the spec: \<^verbatim>\<open>safeDecodeURIComponent\<close> itself, by the same sentences of
  section 4.1: the decoded string, the raw one when the encoding is malformed, nothing
  when the input is absent.
\<close>

definition spec_safeDecodeURIComponent :: "js_string option \<Rightarrow> js_string option" where
  "spec_safeDecodeURIComponent t =
     (case t of
        None \<Rightarrow> None
      | Some raw \<Rightarrow> Some (case percent_decode raw of None \<Rightarrow> raw | Some decoded \<Rightarrow> decoded))"

text \<open>
  Modelled from the spec: \<^verbatim>\<open>getWhiteboardInfoForURIString\<close> (whiteboard/functions) is
  not among the sources.  Section 4.1: the resolver needs a non-empty location and a
  usable server URL and yields nothing without them; the URI it yields carries the
  server URL, the collaboration details when they are present (joining a session; a new
  one is created otherwise) and the participant name when it is available.  The
  specification leaves the layout of the URI open; this one appends the inputs to the
  location as query parameters.
\<close>

definition spec_getWhiteboardInfoForURIString ::
  "js_string \<Rightarrow> js_string option \<Rightarrow> CollabDetails option \<Rightarrow> js_string option \<Rightarrow> js_string option" where
  "spec_getWhiteboardInfoForURIString locationHref' collabServerUrl' collabDetails' localParticipantName' =
     (case collabServerUrl' of
        None \<Rightarrow> None
      | Some server \<Rightarrow>
          if locationHref' = [] \<or> server = [] then None
          else Some
            (locationHref' @ units ''static/whiteboard.html?collabServerUrl='' @ server
             @ (case collabDetails' of
                  None \<Rightarrow> []
                | Some d \<Rightarrow> units ''&roomId='' @ roomId d @ units ''&roomKey='' @ roomKey d)
             @ (case localParticipantName' of
                  None \<Rightarrow> []
                | Some n \<Rightarrow> units ''&localParticipantName='' @ n)))"

text \<open>
  Modelled from the spec: \<^verbatim>\<open>getCollabServerUrl\<close>, \<^verbatim>\<open>getCurrentConference\<close> and
  \<^verbatim>\<open>WHITEBOARD_ID\<close> are not among the sources.  Section 6: the metadata channel is keyed
  by a fixed topic identifier reserved for whiteboard sessions; the collaboration-server
  URL and the current conference are read from the shared state of the host.  Here the
  part of the state outside \<open>locationURL\<close> is the pair of the two, and a conference is
  named by a number.
\<close>

definition spec_imports :: "(js_string option \<times> nat option, nat) imported" where
  "spec_imports =
     \<lparr>safeDecodeURIComponent = spec_safeDecodeURIComponent,
      getWhiteboardInfoForURIString = spec_getWhiteboardInfoForURIString,
      getCollabServerUrl = (\<lambda>state. fst (features state)),
      getCurrentConference = (\<lambda>state. snd (features state)),
      WHITEBOARD_ID = units ''whiteboard''\<rparr>"

text \<open>
  Modelled from the spec: the decoding that can fail.  Section 4.1 speaks of a decoding
  failure on a malformed percent-encoding, which must not reach the caller; the built-in
  \<^verbatim>\<open>decodeURIComponent\<close> throws a \<^verbatim>\<open>URIError\<close> on one.
\<close>

definition spec_decodeURIComponent :: "js_string \<Rightarrow> js_error + js_string" where
  "spec_decodeURIComponent t =
     (case percent_decode t of None \<Rightarrow> Inl URIError | Some decoded \<Rightarrow> Inr decoded)"

text \<open>
  Modelled from the spec: \<^verbatim>\<open>safeDecodeURIComponent\<close> as a call.  Section 4.1: the
  decoding failure is caught and the raw value is the result; an absent input stays
  absent.
\<close>

definition spec_call_safeDecodeURIComponent :: "js_value \<Rightarrow> js_error + js_value" where
  "spec_call_safeDecodeURIComponent v =
     (case v of
        JSString raw \<Rightarrow>
          (case spec_decodeURIComponent raw of
             Inl e \<Rightarrow> Inr (JSString raw)
           | Inr decoded \<Rightarrow> Inr (JSString decoded))
      | absent \<Rightarrow> Inr absent)"

text \<open>
  Modelled from the spec: \<^verbatim>\<open>getWhiteboardInfoForURIString\<close> as a call.  Section 4.1:
  the resolver is a pure function that returns for all inputs, with the URI or with
  nothing.
\<close>

definition spec_call_getWhiteboardInfoForURIString ::
  "js_string \<Rightarrow> js_value \<Rightarrow> CollabDetails option \<Rightarrow> js_value \<Rightarrow> js_error + js_value" where
  "spec_call_getWhiteboardInfoForURIString locationHref' collabServerUrl' collabDetails' localParticipantName' =
     Inr (to_value (spec_getWhiteboardInfoForURIString locationHref'
            (to_option collabServerUrl') collabDetails' (to_option localParticipantName')))"

definition spec_helper_calls :: helper_calls where
  "spec_helper_calls =
     \<lparr>call_safeDecodeURIComponent = spec_call_safeDecodeURIComponent,
      call_getWhiteboardInfoForURIString = spec_call_getWhiteboardInfoForURIString\<rparr>"

text \<open>
  The scenario of section 8 of the specification: the application at
  \<^verbatim>\<open>https://app.example/\<close>, the collaboration server \<^verbatim>\<open>https://collab.example\<close>, the
  participant \<^verbatim>\<open>Ana\<close>, no collaboration details yet.  The route carries the server URL
  given; the props carry the conference given.
\<close>

definition scenario_route :: "js_string option \<Rightarrow> Route" where
  "scenario_route server =
     \<lparr>params = Some \<lparr>RouteParams.collabDetails = None,
                     RouteParams.collabServerUrl = server,
                     localParticipantName = Some (units ''Ana'')\<rparr>\<rparr>"

definition scenario_props :: "nat option \<Rightarrow> Route \<Rightarrow> nat IProps" where
  "scenario_props conf r =
     \<lparr>conference = conf,
      StateProps.collabServerUrl = Some (units ''https://collab.example''),
      locationHref = units ''https://app.example/'',
      route = r\<rparr>"

section \<open>Properties\<close>

subsection \<open>Auxiliary facts\<close>

text \<open>The message bridge on a payload that parses, in one equation.\<close>

lemma onMessage_parsed:
  assumes "JSON_parse (data event) = Some v"
  shows "onMessage imp props event calls =
    (None, calls @
      (if truthy (optional_member v (units ''roomId''))
          \<and> truthy (optional_member v (units ''roomKey''))
       then dispatch (setupWhiteboard v) #
         (case conference props of
            None \<Rightarrow> []
          | Some conf \<Rightarrow>
              [setMetadata conf (WHITEBOARD_ID imp)
                 \<lparr>Metadata.collabServerUrl = StateProps.collabServerUrl props,
                  Metadata.collabDetails = v\<rparr>])
       else []))"
  using assms by (simp add: onMessage_def Let_def split: option.split)

text \<open>The props of the connected component.\<close>

lemma connect_props:
  "conference (connect imp state r) = getCurrentConference imp state"
  "StateProps.collabServerUrl (connect imp state r) = getCollabServerUrl imp state"
  "locationHref (connect imp state r) = (case locationURL state of None \<Rightarrow> [] | Some u \<Rightarrow> href u)"
  "route (connect imp state r) = r"
  by (simp_all add: connect_def mapStateToProps_def StateProps.defs IProps.defs)

text \<open>
  The guard allows a URL exactly when the resolver, on the route parameters as they are,
  yields that URL.
\<close>

lemma onNavigate_iff:
  "onNavigate imp props request \<longleftrightarrow>
     getWhiteboardInfoForURIString imp (locationHref props)
       (route_param RouteParams.collabServerUrl (route props))
       (route_param RouteParams.collabDetails (route props))
       (route_param RouteParams.localParticipantName (route props)) = Some (url request)"
  by (auto simp: onNavigate_def Let_def)

subsection \<open>The navigation guard\<close>

text \<open>
  C1.  The claim: the guard allows the URI that was loaded and nothing else, since it
  recomputes the URI as \<^verbatim>\<open>render\<close> does.  The code: \<^verbatim>\<open>render\<close> passes the server URL
  and the participant name through \<^verbatim>\<open>safeDecodeURIComponent\<close> before it resolves,
  \<^verbatim>\<open>_onNavigate\<close> resolves them as they are in the route.  Whenever the two resolutions
  differ, the guard rejects the very URI the web view was given.  The instance after the
  theorem is a route with the percent-encoded server URL
  \<^verbatim>\<open>https%3A%2F%2Fcollab.example\<close>: the guard rejects the loaded URI and allows the URI
  of the encoded server URL, which was never loaded.
\<close>

theorem onNavigate_rejects_loaded_uri:
  assumes "getWhiteboardInfoForURIString imp (locationHref props)
      (safeDecodeURIComponent imp (route_param RouteParams.collabServerUrl (route props)))
      (route_param RouteParams.collabDetails (route props))
      (safeDecodeURIComponent imp (route_param RouteParams.localParticipantName (route props)))
      = Some uri"
    and "getWhiteboardInfoForURIString imp (locationHref props)
      (route_param RouteParams.collabServerUrl (route props))
      (route_param RouteParams.collabDetails (route props))
      (route_param RouteParams.localParticipantName (route props))
      \<noteq> Some uri"
  shows "render_uri imp props = uri \<and> onNavigate imp props \<lparr>url = uri\<rparr> = False"
  using assms by (simp add: render_uri_def onNavigate_iff Let_def nullish_def)

theorem onNavigate_rejects_loaded_uri_witness:
  "render_uri spec_imports
       (scenario_props None (scenario_route (Some (units ''https%3A%2F%2Fcollab.example''))))
     = units ''https://app.example/static/whiteboard.html?collabServerUrl=https://collab.example&localParticipantName=Ana''
   \<and> onNavigate spec_imports
         (scenario_props None (scenario_route (Some (units ''https%3A%2F%2Fcollab.example''))))
         \<lparr>url = units ''https://app.example/static/whiteboard.html?collabServerUrl=https://collab.example&localParticipantName=Ana''\<rparr>
     = False
   \<and> onNavigate spec_imports
         (scenario_props None (scenario_route (Some (units ''https%3A%2F%2Fcollab.example''))))
         \<lparr>url = units ''https://app.example/static/whiteboard.html?collabServerUrl=https%3A%2F%2Fcollab.example&localParticipantName=Ana''\<rparr>
     = True"
proof -
  let ?p = "scenario_props None (scenario_route (Some (units ''https%3A%2F%2Fcollab.example'')))"
  let ?u = "units ''https://app.example/static/whiteboard.html?collabServerUrl=https://collab.example&localParticipantName=Ana''"
  have decoded: "getWhiteboardInfoForURIString spec_imports (locationHref ?p)
      (safeDecodeURIComponent spec_imports (route_param RouteParams.collabServerUrl (route ?p)))
      (route_param RouteParams.collabDetails (route ?p))
      (safeDecodeURIComponent spec_imports (route_param RouteParams.localParticipantName (route ?p)))
      = Some ?u"
    by code_simp
  have raw: "getWhiteboardInfoForURIString spec_imports (locationHref ?p)
      (route_param RouteParams.collabServerUrl (route ?p))
      (route_param RouteParams.collabDetails (route ?p))
      (route_param RouteParams.localParticipantName (route ?p))
      \<noteq> Some ?u"
    by code_simp
  have other: "onNavigate spec_imports ?p
         \<lparr>url = units ''https://app.example/static/whiteboard.html?collabServerUrl=https%3A%2F%2Fcollab.example&localParticipantName=Ana''\<rparr>"
    by code_simp
  from onNavigate_rejects_loaded_uri [OF decoded raw] other show ?thesis by simp
qed









subsection \<open>The source of the web view\<close>

text \<open>
  When the helpers return, \<^verbatim>\<open>render\<close> returns a string: the URI the resolver returned,
  or the empty string when the resolver returned \<^verbatim>\<open>undefined\<close> or \<^verbatim>\<open>null\<close>.
\<close>

lemma render_of_returning_helpers:
  assumes "call_safeDecodeURIComponent calls
             (to_value (route_param RouteParams.collabServerUrl (route props))) = Inr s"
    and "call_safeDecodeURIComponent calls
             (to_value (route_param RouteParams.localParticipantName (route props))) = Inr n"
    and "call_getWhiteboardInfoForURIString calls (locationHref props) s
           (route_param RouteParams.collabDetails (route props)) n = Inr r"
  shows "render calls props = Inr (JSString (case r of JSString uri \<Rightarrow> uri | _ \<Rightarrow> []))"
  using assms by (cases r) (simp_all add: render_def Let_def nullish_value_def)

lemma to_option_to_value: "to_option (to_value t) = t"
  by (simp add: to_option_def to_value_def split: option.split)

text \<open>\<open>render_uri\<close> is the string \<^verbatim>\<open>render\<close> returns with helpers that return.\<close>

lemma render_returning: "render (returning imp) props = Inr (JSString (render_uri imp props))"
proof -
  let ?s = "safeDecodeURIComponent imp (route_param RouteParams.collabServerUrl (route props))"
  let ?n = "safeDecodeURIComponent imp (route_param RouteParams.localParticipantName (route props))"
  let ?r = "getWhiteboardInfoForURIString imp (locationHref props) ?s
              (route_param RouteParams.collabDetails (route props)) ?n"
  have s: "call_safeDecodeURIComponent (returning imp)
      (to_value (route_param RouteParams.collabServerUrl (route props))) = Inr (to_value ?s)"
    by (simp add: returning_def to_option_to_value)
  have n: "call_safeDecodeURIComponent (returning imp)
      (to_value (route_param RouteParams.localParticipantName (route props))) = Inr (to_value ?n)"
    by (simp add: returning_def to_option_to_value)
  have r: "call_getWhiteboardInfoForURIString (returning imp) (locationHref props) (to_value ?s)
      (route_param RouteParams.collabDetails (route props)) (to_value ?n) = Inr (to_value ?r)"
    by (simp add: returning_def to_option_to_value)
  show ?thesis
    unfolding render_of_returning_helpers [OF s n r]
    by (simp add: render_uri_def Let_def nullish_def to_value_def split: option.split)
qed

text \<open>The safe decoder of the specification returns, also where the decoding throws.\<close>

lemma spec_call_safeDecodeURIComponent_returns:
  "spec_call_safeDecodeURIComponent (to_value t) = Inr (to_value (spec_safeDecodeURIComponent t))"
  by (simp add: spec_call_safeDecodeURIComponent_def spec_decodeURIComponent_def to_value_def
      spec_safeDecodeURIComponent_def split: option.split)

text \<open>
  C6.  With the safe decoder and the resolver of the specification, for every props (so
  for every combination of present and absent route parameters, the route having no
  parameters at all included) \<^verbatim>\<open>render\<close> returns, it does not throw, and the source it
  gives the web view is a string, never \<^verbatim>\<open>undefined\<close>: the URI the resolver yields for
  the decoded parameters, or the empty string when the resolver yields nothing.
\<close>

theorem render_returns_a_string:
  "render spec_helper_calls props =
     Inr (JSString
       (case spec_getWhiteboardInfoForURIString (locationHref props)
               (spec_safeDecodeURIComponent (route_param RouteParams.collabServerUrl (route props)))
               (route_param RouteParams.collabDetails (route props))
               (spec_safeDecodeURIComponent (route_param RouteParams.localParticipantName (route props))) of
          None \<Rightarrow> []
        | Some uri \<Rightarrow> uri))"
proof -
  let ?s = "spec_safeDecodeURIComponent (route_param RouteParams.collabServerUrl (route props))"
  let ?n = "spec_safeDecodeURIComponent (route_param RouteParams.localParticipantName (route props))"
  let ?r = "spec_getWhiteboardInfoForURIString (locationHref props) ?s
              (route_param RouteParams.collabDetails (route props)) ?n"
  have s: "call_safeDecodeURIComponent spec_helper_calls
      (to_value (route_param RouteParams.collabServerUrl (route props))) = Inr (to_value ?s)"
    by (simp add: spec_helper_calls_def spec_call_safeDecodeURIComponent_returns)
  have n: "call_safeDecodeURIComponent spec_helper_calls
      (to_value (route_param RouteParams.localParticipantName (route props))) = Inr (to_value ?n)"
    by (simp add: spec_helper_calls_def spec_call_safeDecodeURIComponent_returns)
  have r: "call_getWhiteboardInfoForURIString spec_helper_calls (locationHref props) (to_value ?s)
      (route_param RouteParams.collabDetails (route props)) (to_value ?n) = Inr (to_value ?r)"
    by (simp add: spec_helper_calls_def spec_call_getWhiteboardInfoForURIString_def
        to_option_to_value)
  show ?thesis
    unfolding render_of_returning_helpers [OF s n r]
    by (simp add: to_value_def split: option.split)
qed

theorem render_returns_a_string_witness:
  "render spec_helper_calls
       (scenario_props None (scenario_route (Some (units ''https%3A%2F%2Fcollab.example''))))
     = Inr (JSString (units ''https://app.example/static/whiteboard.html?collabServerUrl=https://collab.example&localParticipantName=Ana''))
   \<and> spec_decodeURIComponent (units ''100%'') = Inl URIError
   \<and> render spec_helper_calls (scenario_props None (scenario_route (Some (units ''100%''))))
     = Inr (JSString (units ''https://app.example/static/whiteboard.html?collabServerUrl=100%&localParticipantName=Ana''))
   \<and> render spec_helper_calls (scenario_props None (scenario_route None)) = Inr (JSString [])
   \<and> render spec_helper_calls (scenario_props None \<lparr>params = None\<rparr>) = Inr (JSString [])"
proof -
  let ?R = "\<lambda>props. case spec_getWhiteboardInfoForURIString (locationHref props)
               (spec_safeDecodeURIComponent (route_param RouteParams.collabServerUrl (route props)))
               (route_param RouteParams.collabDetails (route props))
               (spec_safeDecodeURIComponent (route_param RouteParams.localParticipantName (route props))) of
          None \<Rightarrow> []
        | Some uri \<Rightarrow> uri"
  have a: "?R (scenario_props None (scenario_route (Some (units ''https%3A%2F%2Fcollab.example''))))
      = units ''https://app.example/static/whiteboard.html?collabServerUrl=https://collab.example&localParticipantName=Ana''"
    by code_simp
  have b: "?R (scenario_props None (scenario_route (Some (units ''100%''))))
      = units ''https://app.example/static/whiteboard.html?collabServerUrl=100%&localParticipantName=Ana''"
    by code_simp
  have c: "?R (scenario_props None (scenario_route None)) = []"
    by code_simp
  have d: "?R (scenario_props None \<lparr>params = None\<rparr>) = []"
    by code_simp
  have e: "spec_decodeURIComponent (units ''100%'') = Inl URIError"
    by code_simp
  show ?thesis
    using render_returns_a_string
        [of "scenario_props None (scenario_route (Some (units ''https%3A%2F%2Fcollab.example'')))"]
      render_returns_a_string [of "scenario_props None (scenario_route (Some (units ''100%'')))"]
      render_returns_a_string [of "scenario_props None (scenario_route None)"]
      render_returns_a_string [of "scenario_props None \<lparr>params = None\<rparr>"]
      a b c d e
    by simp
qed

subsection \<open>The message bridge\<close>

text \<open>
  C2, as the claim states it, fails: a payload that is not JSON makes \<^verbatim>\<open>JSON.parse\<close>
  throw, and \<^verbatim>\<open>_onMessage\<close> has no handler around the call, so the exception leaves
  \<^verbatim>\<open>_onMessage\<close>.
\<close>

theorem onMessage_not_json_throws:
  "JSON_parse (units ''not json'') = None
   \<and> fst (onMessage spec_imports (scenario_props (Some 7) (scenario_route None))
            \<lparr>data = units ''not json''\<rparr> []) = Some SyntaxError"
  by code_simp

text \<open>
  C2, amended.  For every payload that is not valid JSON, \<^verbatim>\<open>_onMessage\<close> ends with the
  \<^verbatim>\<open>SyntaxError\<close> of \<^verbatim>\<open>JSON.parse\<close> and has made no call: nothing is committed to the
  host state, nothing is published to the metadata channel and no dialog is opened.
\<close>

theorem onMessage_syntax_error:
  assumes "JSON_parse (data event) = None"
  shows "onMessage imp props event calls = (Some SyntaxError, calls)"
  using assms by (simp add: onMessage_def)

theorem onMessage_syntax_error_witness:
  \<open>JSON_parse (units ''{"roomId":'') = None
   \<and> onMessage spec_imports (scenario_props (Some 7) (scenario_route None))
        \<lparr>data = units ''{"roomId":''\<rparr> [dispatch (openDialog WhiteboardErrorDialog)]
     = (Some SyntaxError, [dispatch (openDialog WhiteboardErrorDialog)])\<close>
proof -
  have h: \<open>JSON_parse (data \<lparr>data = units ''{"roomId":''\<rparr>) = None\<close>
    by code_simp
  have h': \<open>JSON_parse (units ''{"roomId":'') = None\<close>
    by code_simp
  show ?thesis
    using onMessage_syntax_error [OF h] h' by simp
qed

text \<open>
  C3, as the claim states it, fails: with \<^verbatim>\<open>roomId\<close> and \<^verbatim>\<open>roomKey\<close> both truthy the
  bridge commits, but it broadcasts only through \<^verbatim>\<open>conference?.\<close>; without a current
  conference the message is committed and not broadcast.
\<close>

theorem onMessage_commit_without_publish:
  \<open>JSON_parse (units ''{"roomId":"r1","roomKey":"k1"}'')
     = Some (JObject [(units ''roomId'', JString (units ''r1'')),
                      (units ''roomKey'', JString (units ''k1''))])
   \<and> truthy (Some (JString (units ''r1''))) \<and> truthy (Some (JString (units ''k1'')))
   \<and> onMessage spec_imports (scenario_props None (scenario_route None))
        \<lparr>data = units ''{"roomId":"r1","roomKey":"k1"}''\<rparr> []
     = (None,
        [dispatch (setupWhiteboard
           (JObject [(units ''roomId'', JString (units ''r1'')),
                     (units ''roomKey'', JString (units ''k1''))]))])\<close>
  by code_simp

text \<open>
  C3, amended.  For every payload that parses, \<^verbatim>\<open>_onMessage\<close> returns normally; it
  commits (once) if and only if \<^verbatim>\<open>roomId\<close> and \<^verbatim>\<open>roomKey\<close> are both present and
  truthy on the parsed value, and it broadcasts (once) if and only if they are and the
  component has a current conference; if either is missing or falsy it makes no call at
  all.
\<close>

theorem onMessage_gate:
  assumes "JSON_parse (data event) = Some v"
  shows "\<exists>new. onMessage imp props event calls = (None, calls @ new)
    \<and> length (filter is_commit new) =
        (if truthy (optional_member v (units ''roomId''))
            \<and> truthy (optional_member v (units ''roomKey'')) then 1 else 0)
    \<and> length (filter is_publish new) =
        (if truthy (optional_member v (units ''roomId''))
            \<and> truthy (optional_member v (units ''roomKey''))
            \<and> conference props \<noteq> None then 1 else 0)
    \<and> (truthy (optional_member v (units ''roomId''))
          \<and> truthy (optional_member v (units ''roomKey'')) \<or> new = [])"
  unfolding onMessage_parsed [OF assms]
  by (auto split: option.split)

theorem onMessage_gate_witness:
  \<open>JSON_parse (units ''{"roomId":"r1"}'') = Some (JObject [(units ''roomId'', JString (units ''r1''))])
   \<and> onMessage spec_imports (scenario_props (Some 7) (scenario_route None))
        \<lparr>data = units ''{"roomId":"r1"}''\<rparr> [] = (None, [])\<close>
proof -
  let ?v = \<open>JObject [(units ''roomId'', JString (units ''r1''))]\<close>
  have p: \<open>JSON_parse (units ''{"roomId":"r1"}'') = Some ?v\<close>
    by code_simp
  then have h: \<open>JSON_parse (data \<lparr>data = units ''{"roomId":"r1"}''\<rparr>) = Some ?v\<close>
    by simp
  have k: "\<not> truthy (optional_member ?v (units ''roomKey''))"
    by code_simp
  from onMessage_gate [OF h, of spec_imports "scenario_props (Some 7) (scenario_route None)" "[]"] k
  have \<open>onMessage spec_imports (scenario_props (Some 7) (scenario_route None))
        \<lparr>data = units ''{"roomId":"r1"}''\<rparr> [] = (None, [])\<close>
    by auto
  with p show ?thesis by simp
qed

text \<open>
  C4, as the claim states it, fails: the publication is not unconditional.  A message
  that passes the gate while the component has no current conference is committed and
  nothing is published.
\<close>

theorem onMessage_accepts_without_publishing:
  \<open>filter is_publish
     (snd (onMessage spec_imports
        (scenario_props None (scenario_route (Some (units ''https://collab.example''))))
        \<lparr>data = units ''{"roomId":"abc","roomKey":"xyz"}''\<rparr> [])) = []
   \<and> filter is_commit
     (snd (onMessage spec_imports
        (scenario_props None (scenario_route (Some (units ''https://collab.example''))))
        \<lparr>data = units ''{"roomId":"abc","roomKey":"xyz"}''\<rparr> []))
     = [dispatch (setupWhiteboard
          (JObject [(units ''roomId'', JString (units ''abc'')),
                    (units ''roomKey'', JString (units ''xyz''))]))]\<close>
  by code_simp

text \<open>
  C4, amended.  For every message that passes the gate: when the component has a current
  conference, the bridge publishes exactly one record to the metadata of that conference,
  under the key \<^verbatim>\<open>WHITEBOARD_ID\<close>, holding the \<^verbatim>\<open>collabServerUrl\<close> prop and the
  validated details; when it has none, the bridge publishes nothing.
\<close>

theorem onMessage_publishes_to_conference:
  assumes "JSON_parse (data event) = Some v"
    and "truthy (optional_member v (units ''roomId''))"
    and "truthy (optional_member v (units ''roomKey''))"
  shows "\<exists>new. snd (onMessage imp props event calls) = calls @ new
    \<and> filter is_publish new =
        (case conference props of
           None \<Rightarrow> []
         | Some conf \<Rightarrow>
             [setMetadata conf (WHITEBOARD_ID imp)
                \<lparr>Metadata.collabServerUrl = StateProps.collabServerUrl props,
                 Metadata.collabDetails = v\<rparr>])"
  unfolding onMessage_parsed [OF assms(1)] using assms(2,3)
  by (auto split: option.split)

theorem onMessage_publishes_to_conference_witness:
  \<open>filter is_publish
     (snd (onMessage spec_imports
        (scenario_props (Some 7) (scenario_route (Some (units ''https://collab.example''))))
        \<lparr>data = units ''{"roomId":"abc","roomKey":"xyz"}''\<rparr> []))
   = [setMetadata 7 (units ''whiteboard'')
        \<lparr>Metadata.collabServerUrl = Some (units ''https://collab.example''),
         Metadata.collabDetails =
           JObject [(units ''roomId'', JString (units ''abc'')),
                    (units ''roomKey'', JString (units ''xyz''))]\<rparr>]\<close>
proof -
  let ?v = \<open>JObject [(units ''roomId'', JString (units ''abc'')),
                    (units ''roomKey'', JString (units ''xyz''))]\<close>
  let ?props = \<open>scenario_props (Some 7) (scenario_route (Some (units ''https://collab.example'')))\<close>
  have h: \<open>JSON_parse (data \<lparr>data = units ''{"roomId":"abc","roomKey":"xyz"}''\<rparr>) = Some ?v\<close>
    by code_simp
  have i: "truthy (optional_member ?v (units ''roomId''))" by code_simp
  have k: "truthy (optional_member ?v (units ''roomKey''))" by code_simp
  from onMessage_publishes_to_conference [OF h i k, of spec_imports ?props "[]"]
  show ?thesis by (auto simp: scenario_props_def spec_imports_def)
qed

text \<open>
  C5.  For every message that passes the gate, the first call the bridge makes is the
  commit, \<^verbatim>\<open>dispatch(setupWhiteboard({ collabDetails }))\<close>; every call after it is a
  publication to the metadata channel, and with a current conference there is one.  So
  the commit is observed before the publication of the same message.
\<close>

theorem onMessage_commit_before_publish:
  assumes "JSON_parse (data event) = Some v"
    and "truthy (optional_member v (units ''roomId''))"
    and "truthy (optional_member v (units ''roomKey''))"
  shows "\<exists>rest. snd (onMessage imp props event calls) = calls @ dispatch (setupWhiteboard v) # rest
    \<and> (\<forall>e \<in> set rest. is_publish e)
    \<and> (conference props = None \<or> rest \<noteq> [])"
  unfolding onMessage_parsed [OF assms(1)] using assms(2,3)
  by (auto split: option.split)

theorem onMessage_commit_before_publish_witness:
  \<open>\<exists>rest.
     snd (onMessage spec_imports (scenario_props (Some 7) (scenario_route None))
        \<lparr>data = units ''{"roomKey":"k","roomId":"r"}''\<rparr> [dispatch (openDialog WhiteboardErrorDialog)])
     = [dispatch (openDialog WhiteboardErrorDialog),
        dispatch (setupWhiteboard
          (JObject [(units ''roomKey'', JString (units ''k'')),
                    (units ''roomId'', JString (units ''r''))]))] @ rest
     \<and> list_all is_publish rest \<and> rest \<noteq> []\<close>
proof -
  let ?v = \<open>JObject [(units ''roomKey'', JString (units ''k'')),
                    (units ''roomId'', JString (units ''r''))]\<close>
  let ?props = \<open>scenario_props (Some 7) (scenario_route None)\<close>
  have h: \<open>JSON_parse (data \<lparr>data = units ''{"roomKey":"k","roomId":"r"}''\<rparr>) = Some ?v\<close>
    by code_simp
  have i: "truthy (optional_member ?v (units ''roomId''))" by code_simp
  have k: "truthy (optional_member ?v (units ''roomKey''))" by code_simp
  have c: "conference ?props \<noteq> None" by (simp add: scenario_props_def)
  from onMessage_commit_before_publish [OF h i k, of spec_imports ?props
      "[dispatch (openDialog WhiteboardErrorDialog)]"] c
  show ?thesis by (auto simp: list_all_iff)
qed

text \<open>
  C9.  In the connected component, the record published for an accepted message carries
  the server URL \<^verbatim>\<open>getCollabServerUrl(state)\<close>, which \<^verbatim>\<open>mapStateToProps\<close> puts in the
  props; the \<^verbatim>\<open>collabServerUrl\<close> of the route, from which the loaded URI is built, does
  not enter the record, whatever it is.
\<close>

theorem onMessage_broadcasts_state_url:
  assumes "JSON_parse (data event) = Some v"
    and "truthy (optional_member v (units ''roomId''))"
    and "truthy (optional_member v (units ''roomKey''))"
    and "getCurrentConference imp state = Some conf"
  shows "\<exists>new. snd (onMessage imp (connect imp state r) event calls) = calls @ new
    \<and> filter is_publish new =
        [setMetadata conf (WHITEBOARD_ID imp)
           \<lparr>Metadata.collabServerUrl = getCollabServerUrl imp state,
            Metadata.collabDetails = v\<rparr>]"
  unfolding onMessage_parsed [OF assms(1)] using assms(2,3,4)
  by (simp add: connect_props)

theorem onMessage_broadcasts_state_url_witness:
  \<open>route_param RouteParams.collabServerUrl
       (scenario_route (Some (units ''https%3A%2F%2Froute.example'')))
     = Some (units ''https%3A%2F%2Froute.example'')
   \<and> filter is_publish
     (snd (onMessage spec_imports
        (connect spec_imports
           \<lparr>locationURL = Some \<lparr>href = units ''https://app.example/''\<rparr>,
            features = (Some (units ''https://collab.example''), Some 7)\<rparr>
           (scenario_route (Some (units ''https%3A%2F%2Froute.example''))))
        \<lparr>data = units ''{"roomId":"abc","roomKey":"xyz"}''\<rparr> []))
   = [setMetadata 7 (units ''whiteboard'')
        \<lparr>Metadata.collabServerUrl = Some (units ''https://collab.example''),
         Metadata.collabDetails =
           JObject [(units ''roomId'', JString (units ''abc'')),
                    (units ''roomKey'', JString (units ''xyz''))]\<rparr>]\<close>
proof -
  let ?v = \<open>JObject [(units ''roomId'', JString (units ''abc'')),
                    (units ''roomKey'', JString (units ''xyz''))]\<close>
  let ?state = \<open>\<lparr>locationURL = Some \<lparr>href = units ''https://app.example/''\<rparr>,
            features = (Some (units ''https://collab.example''), Some (7::nat))\<rparr>\<close>
  have h: \<open>JSON_parse (data \<lparr>data = units ''{"roomId":"abc","roomKey":"xyz"}''\<rparr>) = Some ?v\<close>
    by code_simp
  have i: "truthy (optional_member ?v (units ''roomId''))" by code_simp
  have k: "truthy (optional_member ?v (units ''roomKey''))" by code_simp
  have c: "getCurrentConference spec_imports ?state = Some 7"
    by (simp add: spec_imports_def)
  have p: \<open>route_param RouteParams.collabServerUrl
       (scenario_route (Some (units ''https%3A%2F%2Froute.example'')))
     = Some (units ''https%3A%2F%2Froute.example'')\<close>
    by (simp add: route_param_def scenario_route_def)
  from onMessage_broadcasts_state_url [OF h i k c,
      of "scenario_route (Some (units ''https%3A%2F%2Froute.example''))" "[]"] p
  show ?thesis by (auto simp: spec_imports_def)
qed

text \<open>
  C10.  The gate tests truthiness only.  The payload \<^verbatim>\<open>{"roomId":1,"roomKey":{}}\<close>,
  whose \<^verbatim>\<open>roomId\<close> is a number and whose \<^verbatim>\<open>roomKey\<close> is an object, passes it: the
  parsed object is committed and, with a current conference, broadcast as it was parsed.
\<close>

theorem onMessage_accepts_non_string_credentials:
  \<open>JSON_parse (units ''{"roomId":1,"roomKey":{}}'')
     = Some (JObject [(units ''roomId'', JNumber 1), (units ''roomKey'', JObject [])])
   \<and> onMessage imp (props\<lparr>conference := Some conf\<rparr>)
        \<lparr>data = units ''{"roomId":1,"roomKey":{}}''\<rparr> calls
     = (None,
        calls @
        [dispatch (setupWhiteboard
           (JObject [(units ''roomId'', JNumber 1), (units ''roomKey'', JObject [])])),
         setMetadata conf (WHITEBOARD_ID imp)
           \<lparr>Metadata.collabServerUrl = StateProps.collabServerUrl props,
            Metadata.collabDetails =
              JObject [(units ''roomId'', JNumber 1), (units ''roomKey'', JObject [])]\<rparr>])\<close>
proof -
  let ?v = \<open>JObject [(units ''roomId'', JNumber 1), (units ''roomKey'', JObject [])]\<close>
  have p: \<open>JSON_parse (units ''{"roomId":1,"roomKey":{}}'') = Some ?v\<close>
    by code_simp
  then have h: \<open>JSON_parse (data \<lparr>data = units ''{"roomId":1,"roomKey":{}}''\<rparr>) = Some ?v\<close>
    by simp
  have i: "truthy (optional_member ?v (units ''roomId''))" by code_simp
  have k: "truthy (optional_member ?v (units ''roomKey''))" by code_simp
  show ?thesis
    unfolding onMessage_parsed [OF h] using p i k by simp
qed

theorem onMessage_accepts_non_string_credentials_witness:
  \<open>onMessage spec_imports (scenario_props (Some 7) (scenario_route None))
        \<lparr>data = units ''{"roomId":1,"roomKey":{}}''\<rparr> []
     = (None,
        [dispatch (setupWhiteboard
           (JObject [(units ''roomId'', JNumber 1), (units ''roomKey'', JObject [])])),
         setMetadata 7 (units ''whiteboard'')
           \<lparr>Metadata.collabServerUrl = Some (units ''https://collab.example''),
            Metadata.collabDetails =
              JObject [(units ''roomId'', JNumber 1), (units ''roomKey'', JObject [])]\<rparr>])\<close>
  using onMessage_accepts_non_string_credentials
    [where imp = spec_imports and props = "scenario_props None (scenario_route None)"
       and conf = 7 and calls = "[]"]
  by (simp add: scenario_props_def spec_imports_def)

subsection \<open>The load-error handler\<close>

text \<open>
  C7.  Every invocation of \<^verbatim>\<open>_onError\<close> makes exactly one call, the dispatch of
  \<^verbatim>\<open>openDialog(WhiteboardErrorDialog)\<close>, and nothing else; \<open>n\<close> load errors in a row make
  \<open>n\<close> such calls, whatever was called before.
\<close>

theorem onError_opens_one_dialog_each_time:
  "(onError props ^^ n) calls = calls @ replicate n (dispatch (openDialog WhiteboardErrorDialog))"
  by (induction n) (simp_all add: onError_def replicate_append_same)

theorem onError_opens_one_dialog_each_time_witness:
  "onError (scenario_props None (scenario_route None))
     (onError (scenario_props None (scenario_route None))
        [dispatch (setupWhiteboard JNull)])
   = [dispatch (setupWhiteboard JNull),
      dispatch (openDialog WhiteboardErrorDialog),
      dispatch (openDialog WhiteboardErrorDialog)]"
  using onError_opens_one_dialog_each_time
    [where props = "scenario_props None (scenario_route None)" and n = 2
       and calls = "[dispatch (setupWhiteboard JNull)]"]
  by (simp add: numeral_2_eq_2)

end
